theory Spec2Isabelle
  imports Main
begin

section \<open>Python strings\<close>

text \<open>
  A Python \<open>str\<close> is modelled as a \<^typ>\<open>string\<close>: the bytes of its UTF-8 encoding. A
  character is a byte that is not a continuation byte together with the continuation bytes
  that follow it. \<open>strip\<close> removes the white space of \<open>str.strip()\<close>: the characters
  U+0009 to U+000D, U+001C to U+0020, U+0085, U+00A0, U+1680, U+2000 to U+200A, U+2028,
  U+2029, U+202F, U+205F and U+3000.
\<close>

definition continuation :: "char \<Rightarrow> bool" where
  "continuation c = (digit7 c \<and> \<not> digit6 c)"

function characters :: "string \<Rightarrow> string list" where
  "characters [] = []"
| "characters (c # cs) =
     (c # takeWhile continuation cs) # characters (dropWhile continuation cs)"
  by pat_completeness auto
termination
  by (relation "measure length") (simp_all add: length_dropWhile_le le_imp_less_Suc)

definition whitespace :: "string list" where
  "whitespace =
     [[CHR 0x09], [CHR 0x0A], [CHR 0x0B], [CHR 0x0C], [CHR 0x0D],
      [CHR 0x1C], [CHR 0x1D], [CHR 0x1E], [CHR 0x1F], [CHR 0x20],
      [CHR 0xC2, CHR 0x85], [CHR 0xC2, CHR 0xA0], [CHR 0xE1, CHR 0x9A, CHR 0x80],
      [CHR 0xE2, CHR 0x80, CHR 0x80], [CHR 0xE2, CHR 0x80, CHR 0x81],
      [CHR 0xE2, CHR 0x80, CHR 0x82], [CHR 0xE2, CHR 0x80, CHR 0x83],
      [CHR 0xE2, CHR 0x80, CHR 0x84], [CHR 0xE2, CHR 0x80, CHR 0x85],
      [CHR 0xE2, CHR 0x80, CHR 0x86], [CHR 0xE2, CHR 0x80, CHR 0x87],
      [CHR 0xE2, CHR 0x80, CHR 0x88], [CHR 0xE2, CHR 0x80, CHR 0x89],
      [CHR 0xE2, CHR 0x80, CHR 0x8A], [CHR 0xE2, CHR 0x80, CHR 0xA8],
      [CHR 0xE2, CHR 0x80, CHR 0xA9], [CHR 0xE2, CHR 0x80, CHR 0xAF],
      [CHR 0xE2, CHR 0x81, CHR 0x9F], [CHR 0xE3, CHR 0x80, CHR 0x80]]"

definition isspace :: "string \<Rightarrow> bool" where
  "isspace ch = (ch \<in> set whitespace)"

definition strip :: "string \<Rightarrow> string" where
  "strip s = concat (rev (dropWhile isspace (rev (dropWhile isspace (characters s)))))"

text \<open>
  \<open>lower\<close> maps the letters \<open>A\<close> to \<open>Z\<close> and leaves every other byte as it is. \<open>str.lower()\<close>
  also changes letters outside ASCII, but the program only asks whether the result is one of
  four ASCII words without the letter \<open>k\<close>, and the Kelvin sign U+212A (to \<open>k\<close>) is the only
  character outside ASCII whose lower case consists of ASCII letters: the answer is the same.
\<close>

definition ascii_uppercase :: string where
  "ascii_uppercase = ''ABCDEFGHIJKLMNOPQRSTUVWXYZ''"

definition ascii_lowercase :: string where
  "ascii_lowercase = ''abcdefghijklmnopqrstuvwxyz''"

definition lower_char :: "char \<Rightarrow> char" where
  "lower_char c =
     (case map_of (zip ascii_uppercase ascii_lowercase) c of Some d \<Rightarrow> d | None \<Rightarrow> c)"

definition upper_char :: "char \<Rightarrow> char" where
  "upper_char c =
     (case map_of (zip ascii_lowercase ascii_uppercase) c of Some d \<Rightarrow> d | None \<Rightarrow> c)"

definition lower :: "string \<Rightarrow> string" where
  "lower s = map lower_char s"

definition is_cased :: "char \<Rightarrow> bool" where
  "is_cased c = (c \<in> set ascii_uppercase \<or> c \<in> set ascii_lowercase)"

text \<open>\<open>str.title()\<close> on ASCII text: a letter is upper-cased when the character before it is
  not a letter, and lower-cased otherwise. It is applied to ASCII names only; the handlers
  below take \<open>str.title\<close> itself as the parameter \<open>str_title\<close>.\<close>

fun title_from :: "bool \<Rightarrow> string \<Rightarrow> string" where
  "title_from previous_is_cased [] = []"
| "title_from previous_is_cased (c # cs) =
     (if is_cased c
      then (if previous_is_cased then lower_char c else upper_char c) # title_from True cs
      else c # title_from False cs)"

definition title :: "string \<Rightarrow> string" where
  "title s = title_from False s"

text \<open>The symbols the interface puts in front of its labels, as UTF-8.\<close>

definition microphone :: string where
  "microphone = [CHR 0xF0, CHR 0x9F, CHR 0x8E, CHR 0xA4]"

definition stop_sign :: string where
  "stop_sign = [CHR 0xF0, CHR 0x9F, CHR 0x9B, CHR 0x91]"

definition cross_mark :: string where
  "cross_mark = [CHR 0xE2, CHR 0x9D, CHR 0x8C]"

definition waving_hand :: string where
  "waving_hand = [CHR 0xF0, CHR 0x9F, CHR 0x91, CHR 0x8B]"

section \<open>Exceptions, observable events and the external services\<close>

text \<open>
  The exceptions the program tells apart: the two of \<open>speech_recognition\<close> that the loops
  catch by name, and every other subclass of \<open>Exception\<close>. Each carries the text that
  \<open>str(e)\<close> gives.
\<close>

datatype exn =
    WaitTimeoutError string
  | UnknownValueError string
  | Exception string

fun str :: "exn \<Rightarrow> string" where
  "str (WaitTimeoutError m) = m"
| "str (UnknownValueError m) = m"
| "str (Exception m) = m"

datatype msg_type = User | Assistant | Error | System | Clear

datatype box = Showerror | Showwarning | Showinfo

datatype target =
    Process_text_message string
  | Play_response_audio string
  | Voice_loop
  | Voice_conversation_loop

text \<open>
  What a run does that can be seen from outside, in the order it does it: a line added to
  the chat display (\<open>add_message\<close>), a request to one of the services, a line on standard
  output, a message box, a started thread, the report that Tk writes on standard error when
  a scheduled function raises (with the name of the exception), a pause (in milliseconds),
  and the steps of \<open>main\<close>.
\<close>

datatype event =
    Add_message msg_type string
  | Translate string string string
  | Generate_content string
  | GTTS string string
  | Play_audio string "string option"
  | Print string
  | Messagebox box string string
  | Thread_start target
  | Report_callback_exception string
  | Sleep nat
  | Tk
  | Withdraw
  | Destroy
  | MultilingualGUI
  | Mainloop

text \<open>\<open>response.text\<close> is a property that may raise.\<close>

datatype response = Response (response_text: "exn + string")

text \<open>
  The services behind the adapters, as the answers they give to a request:
  \<open>GoogleTranslator(source, target).translate(text)\<close>, \<open>model.generate_content(prompt)\<close>,
  \<open>gTTS(text, lang)\<close> saved to a fresh temporary file (the answer is the file's name), and
  \<open>play_audio\<close> of the module \<open>audio\<close>, which is not part of the sources and is called
  with a file by \<open>gui_app\<close> and with a text and a \<open>language\<close> keyword by \<open>voice_assistant\<close>.
\<close>

record services =
  translate :: "string \<Rightarrow> string \<Rightarrow> string \<Rightarrow> exn + string"
  generate_content :: "string \<Rightarrow> exn + response"
  gTTS_save :: "string \<Rightarrow> string \<Rightarrow> exn + string"
  play_audio :: "string \<Rightarrow> string option \<Rightarrow> exn + unit"

text \<open>A run: the events so far, and either the exception that ended it or its value.\<close>

type_synonym 'a run = "event list \<times> (exn + 'a)"

definition ret :: "'a \<Rightarrow> 'a run" where
  "ret a = ([], Inr a)"

definition raise :: "exn \<Rightarrow> 'a run" where
  "raise e = ([], Inl e)"

definition emit :: "event \<Rightarrow> unit run" where
  "emit ev = ([ev], Inr ())"

definition call :: "event \<Rightarrow> exn + 'a \<Rightarrow> 'a run" where
  "call ev answer = ([ev], answer)"

definition and_then :: "'a run \<Rightarrow> ('a \<Rightarrow> 'b run) \<Rightarrow> 'b run" where
  "and_then m f =
     (case m of
        (tr, Inl e) \<Rightarrow> (tr, Inl e)
      | (tr, Inr a) \<Rightarrow> (case f a of (tr', r) \<Rightarrow> (tr @ tr', r)))"

definition try_except :: "'a run \<Rightarrow> (exn \<Rightarrow> 'a run) \<Rightarrow> 'a run" where
  "try_except m handler =
     (case m of
        (tr, Inl e) \<Rightarrow> (case handler e of (tr', r) \<Rightarrow> (tr @ tr', r))
      | (tr, Inr a) \<Rightarrow> (tr, Inr a))"

section \<open>gemini_client.py\<close>

definition fallback_reply :: string where
  "fallback_reply = ''I'm sorry, I couldn't process that request.''"

definition chat_with_gemini :: "services \<Rightarrow> string \<Rightarrow> string run" where
  "chat_with_gemini env prompt =
     try_except
       (and_then (call (Generate_content prompt) (generate_content env prompt)) (\<lambda>response.
        and_then ([], response_text response) (\<lambda>t.
        ret (strip t))))
       (\<lambda>e. and_then (emit (Print (''Error generating response: '' @ str e))) (\<lambda>_.
            ret fallback_reply))"

definition text_to_speech :: "services \<Rightarrow> string \<Rightarrow> string \<Rightarrow> string option run" where
  "text_to_speech env text language =
     try_except
       (and_then (call (GTTS text language) (gTTS_save env text language)) (\<lambda>filename.
        ret (Some filename)))
       (\<lambda>e. and_then (emit (Print (''Error generating speech: '' @ str e))) (\<lambda>_.
            ret None))"

section \<open>The state of the window\<close>

text \<open>
  \<open>input_language\<close> and \<open>output_language\<close> are lists of three strings in the source: the
  name shown, the locale given to speech recognition (index 1) and the code given to the
  translator and to speech synthesis (index 2).
\<close>

record language =
  display_name :: string
  recognition_locale :: string
  translation_code :: string

text \<open>
  The attributes of the window object that the operations read or write.
  \<open>has_gemini_client\<close> is \<open>hasattr(self, 'gemini_client')\<close>; \<open>start_btn\<close> and \<open>status_label\<close>
  are the texts of the two widgets, \<open>text_input\<close> the content of the entry box;
  \<open>voice_enabled\<close> exists in \<open>voice_assistant\<close> only.
\<close>

record gui =
  input_language :: language
  output_language :: language
  conversation_active :: bool
  has_gemini_client :: bool
  voice_enabled :: bool
  start_btn :: string
  status_label :: string
  text_input :: string
  input_lang_var :: string
  output_lang_var :: string

definition english :: language where
  "english = \<lparr>display_name = ''English'', recognition_locale = ''en-US'',
               translation_code = ''en''\<rparr>"

text \<open>The flags that \<open>voice_assistant\<close> sets while it imports its modules.\<close>

record modules =
  SPEECH_AVAILABLE :: bool
  PYAUDIO_AVAILABLE :: bool
  TRANSLATOR_AVAILABLE :: bool
  GEMINI_AVAILABLE :: bool
  AUDIO_PLAYBACK_AVAILABLE :: bool

text \<open>\<open>setup_variables\<close> of both classes, with the first texts of the widgets;
  \<open>voice_assistant\<close> computes \<open>voice_enabled\<close> from its flags, \<open>gui_app\<close> has no such
  attribute.\<close>

definition setup_variables :: "bool \<Rightarrow> gui" where
  "setup_variables voice =
     \<lparr>input_language = english, output_language = english, conversation_active = False,
      has_gemini_client = False, voice_enabled = voice,
      start_btn = microphone @ '' Start Conversation'', status_label = microphone @ '' Ready'',
      text_input = ''Type message'', input_lang_var = ''english'',
      output_lang_var = ''english''\<rparr>"

definition quoted :: "string \<Rightarrow> string" where
  "quoted s = [CHR 0x27] @ s @ [CHR 0x27]"

text \<open>Reading \<open>self.gemini_client\<close> raises \<open>AttributeError\<close> when the attribute was never set.\<close>

definition gemini_client :: "string \<Rightarrow> gui \<Rightarrow> unit run" where
  "gemini_client class_name st =
     (if has_gemini_client st then ret ()
      else raise (Exception (quoted class_name @ '' object has no attribute '' @
                    quoted ''gemini_client'')))"

section \<open>gui_app.py\<close>

text \<open>
  \<open>process_text_message\<close> reads \<open>self.input_language[2]\<close> once and \<open>self.output_language[2]\<close>
  three times, while the thread of the window may assign those attributes. The four states
  are the window as it is at each read: \<open>s1\<close> at the test of the input code, \<open>s2\<close> at the
  test of the output code, \<open>s3\<close> where the target of the translation is taken, \<open>s4\<close> where the
  language of the speech is taken.
\<close>

definition gui_app_process_text_message_at ::
    "gui \<Rightarrow> gui \<Rightarrow> gui \<Rightarrow> gui \<Rightarrow> services \<Rightarrow> string \<Rightarrow> unit run" where
  "gui_app_process_text_message_at s1 s2 s3 s4 env message =
     try_except
       (and_then (emit (Add_message User message)) (\<lambda>_.
        and_then (if translation_code (input_language s1) \<noteq> ''en''
                  then call (Translate ''auto'' ''en'' message)
                         (translate env ''auto'' ''en'' message)
                  else ret message) (\<lambda>message_english.
        and_then (gemini_client ''MultilingualGUI'' s1) (\<lambda>_.
        and_then (chat_with_gemini env message_english) (\<lambda>response.
        and_then (if translation_code (output_language s2) \<noteq> ''en''
                  then call (Translate ''en'' (translation_code (output_language s3)) response)
                         (translate env ''en'' (translation_code (output_language s3)) response)
                  else ret response) (\<lambda>translated_response.
        and_then (emit (Add_message Assistant translated_response)) (\<lambda>_.
        and_then (text_to_speech env translated_response
                    (translation_code (output_language s4))) (\<lambda>audio_file.
        (case audio_file of
           None \<Rightarrow> ret ()
         | Some f \<Rightarrow> if f = [] then ret () else call (Play_audio f None) (play_audio env f None))
        ))))))))
       (\<lambda>e. emit (Add_message Error (''Error processing message: '' @ str e)))"

text \<open>The turn when nothing assigns the languages while it runs.\<close>

definition gui_app_process_text_message :: "gui \<Rightarrow> services \<Rightarrow> string \<Rightarrow> unit run" where
  "gui_app_process_text_message st env message =
     gui_app_process_text_message_at st st st st env message"

text \<open>
  \<open>send_text_message\<close> starts a thread for \<open>process_text_message\<close>; the model runs the
  thread where it is started, on the window as the handler leaves it.
\<close>

definition gui_app_send_text_message :: "gui \<Rightarrow> services \<Rightarrow> gui \<times> event list" where
  "gui_app_send_text_message st env =
     (let message = strip (text_input st) in
      if message \<noteq> [] \<and> message \<noteq> ''Type message''
      then (let st' = st\<lparr>text_input := ''Type message''\<rparr> in
            (st', Thread_start (Process_text_message message) #
                    fst (gui_app_process_text_message st' env message)))
      else (st, []))"

text \<open>
  \<open>process_voice_message\<close> hands its messages to the window's thread with
  \<open>root.after(0, ...)\<close>; the model records them where they are scheduled. The function
  that the \<open>except\<close> clause schedules reads \<open>e\<close> when the window's thread calls it, and by then
  the clause has ended and Python has unbound \<open>e\<close>: the call raises \<open>NameError\<close>, Tk reports
  it, and no message is added to the display.
\<close>

definition process_voice_message :: "gui \<Rightarrow> services \<Rightarrow> string \<Rightarrow> unit run" where
  "process_voice_message st env message =
     try_except
       (and_then (if translation_code (input_language st) \<noteq> ''en''
                  then call (Translate ''auto'' ''en'' message)
                         (translate env ''auto'' ''en'' message)
                  else ret message) (\<lambda>message_english.
        and_then (gemini_client ''MultilingualGUI'' st) (\<lambda>_.
        and_then (chat_with_gemini env message_english) (\<lambda>response.
        and_then (if translation_code (output_language st) \<noteq> ''en''
                  then call (Translate ''en'' (translation_code (output_language st)) response)
                         (translate env ''en'' (translation_code (output_language st)) response)
                  else ret response) (\<lambda>translated_response.
        and_then (emit (Add_message Assistant translated_response)) (\<lambda>_.
        and_then (text_to_speech env translated_response
                    (translation_code (output_language st))) (\<lambda>audio_file.
        (case audio_file of
           None \<Rightarrow> ret ()
         | Some f \<Rightarrow> if f = [] then ret () else call (Play_audio f None) (play_audio env f None))
        )))))))
       (\<lambda>e. emit (Report_callback_exception ''NameError''))"

definition gui_app_start_conversation :: "gui \<Rightarrow> gui \<times> event list" where
  "gui_app_start_conversation st =
     (if \<not> has_gemini_client st
      then (st, [Messagebox Showerror ''Error''
                   ''Assistant not initialized. Please check your API key.''])
      else if \<not> conversation_active st
      then (st\<lparr>conversation_active := True,
               start_btn := microphone @ '' Listening...'',
               status_label := microphone @ '' Listening...''\<rparr>,
            [Add_message System (microphone @ '' Voice conversation started. Speak now...''),
             Thread_start Voice_loop])
      else (st, []))"

definition gui_app_stop_conversation :: "gui \<Rightarrow> gui \<times> event list" where
  "gui_app_stop_conversation st =
     (st\<lparr>conversation_active := False,
         start_btn := microphone @ '' Start Conversation'',
         status_label := ''Ready''\<rparr>,
      [Add_message System (stop_sign @ '' Voice conversation stopped.'')])"

text \<open>
  One pass of a listening loop meets one outcome of the capture (opening the microphone,
  calibrating, \<open>listen\<close> and \<open>recognize_google\<close>: the recognized text, or the exception one
  of them raised) and the services as they answer during that pass.
\<close>

record heard =
  capture :: "exn + string"
  answers :: services

datatype flow = Break | Next

text \<open>
  Whether the thread of a loop has returned, or is still in the loop, waiting for the
  capture after the last one of the list. The stop button is not among the events of a
  pass: a loop that finds \<open>conversation_active\<close> false at the top of a pass returns.
\<close>

datatype loop_state = Returned | Listening

definition stop_words :: "string list" where
  "stop_words = [''stop'', ''exit'', ''quit'', ''goodbye'']"

text \<open>
  The body of the \<open>while\<close> of \<open>voice_loop\<close>. What the body schedules with
  \<open>root.after(0, ...)\<close> (\<open>stop_conversation\<close>, \<open>add_message\<close>) is recorded, and takes
  effect, where it is scheduled. In the last \<open>except\<close> clause the pause of one second
  keeps \<open>e\<close> bound while the window's thread shows the message.
\<close>

definition voice_loop_body :: "gui \<Rightarrow> heard \<Rightarrow> gui \<times> event list \<times> flow" where
  "voice_loop_body st h =
     (case capture h of
        Inr user_text \<Rightarrow>
          if lower user_text \<in> set stop_words
          then (case gui_app_stop_conversation st of (st', tr) \<Rightarrow> (st', tr, Break))
          else (st, Add_message User user_text #
                      fst (process_voice_message st (answers h) user_text), Next)
      | Inl (WaitTimeoutError m) \<Rightarrow> (st, [], Next)
      | Inl (UnknownValueError m) \<Rightarrow>
          (st, [Add_message Error ''Could not understand audio''], Next)
      | Inl (Exception m) \<Rightarrow>
          (st, [Add_message Error (''Voice error: '' @ m), Sleep 1000], Next))"

fun voice_loop :: "gui \<Rightarrow> heard list \<Rightarrow> gui \<times> event list \<times> loop_state" where
  "voice_loop st [] = (st, [], if conversation_active st then Listening else Returned)"
| "voice_loop st (h # hs) =
     (if \<not> conversation_active st then (st, [], Returned)
      else
        (case voice_loop_body st h of
           (st', tr, Break) \<Rightarrow> (st', tr, Returned)
         | (st', tr, Next) \<Rightarrow>
             (case voice_loop st' hs of (st'', tr', r) \<Rightarrow> (st'', tr @ tr', r))))"

text \<open>
  The registry \<open>languages_dict\<close> of the module \<open>languages\<close> is not part of the sources: it
  is a parameter, a map from a name to the locale and the code (the two entries of each
  list of the fallback dictionary of \<open>voice_assistant\<close>). \<open>str_title\<close> is \<open>str.title\<close>, which
  gives the name shown.
\<close>

type_synonym registry = "string \<rightharpoonup> string \<times> string"

definition update_input_language ::
    "(string \<Rightarrow> string) \<Rightarrow> registry \<Rightarrow> gui \<Rightarrow> gui" where
  "update_input_language str_title languages_dict st =
     (let lang_name = input_lang_var st in
      case languages_dict lang_name of
        None \<Rightarrow> st
      | Some (locale, code) \<Rightarrow>
          st\<lparr>input_language :=
               \<lparr>display_name = str_title lang_name, recognition_locale = locale,
                translation_code = code\<rparr>\<rparr>)"

definition update_output_language ::
    "(string \<Rightarrow> string) \<Rightarrow> registry \<Rightarrow> gui \<Rightarrow> gui" where
  "update_output_language str_title languages_dict st =
     (let lang_name = output_lang_var st in
      case languages_dict lang_name of
        None \<Rightarrow> st
      | Some (locale, code) \<Rightarrow>
          st\<lparr>output_language :=
               \<lparr>display_name = str_title lang_name, recognition_locale = locale,
                translation_code = code\<rparr>\<rparr>)"

text \<open>
  What the thread of the window does when the user picks a name in one of the two
  comboboxes: the variable takes the name, then the bound handler runs.
\<close>

datatype selection = Select_input string | Select_output string

fun select :: "(string \<Rightarrow> string) \<Rightarrow> registry \<Rightarrow> gui \<Rightarrow> selection \<Rightarrow> gui" where
  "select str_title languages_dict st (Select_input lang_name) =
     update_input_language str_title languages_dict (st\<lparr>input_lang_var := lang_name\<rparr>)"
| "select str_title languages_dict st (Select_output lang_name) =
     update_output_language str_title languages_dict (st\<lparr>output_lang_var := lang_name\<rparr>)"

text \<open>
  A turn of \<open>gui_app\<close> on its own thread, with the selections that the thread of the window
  handles meanwhile: \<open>during_inference\<close> between the test of the input code and the test of
  the output code (the inbound translation and the call of the model lie between them),
  \<open>before_target\<close> between that test and the reading of the target, \<open>during_translation\<close>
  between that reading and the reading of the language of the speech. The result is the
  window after the turn, and the run of the turn.
\<close>

definition process_text_message_interleaved ::
    "(string \<Rightarrow> string) \<Rightarrow> registry \<Rightarrow> gui \<Rightarrow> services \<Rightarrow> string \<Rightarrow>
     selection list \<Rightarrow> selection list \<Rightarrow> selection list \<Rightarrow> gui \<times> unit run" where
  "process_text_message_interleaved str_title languages_dict st env message
       during_inference before_target during_translation =
     (let s1 = st;
          s2 = foldl (select str_title languages_dict) s1 during_inference;
          s3 = foldl (select str_title languages_dict) s2 before_target;
          s4 = foldl (select str_title languages_dict) s3 during_translation
      in (s4, gui_app_process_text_message_at s1 s2 s3 s4 env message))"

text \<open>The fallback dictionary of \<open>voice_assistant\<close>.\<close>

definition fallback_languages_dict :: registry where
  "fallback_languages_dict =
     map_of
       [(''english'', (''en-US'', ''en'')),
        (''spanish'', (''es-ES'', ''es'')),
        (''french'', (''fr-FR'', ''fr'')),
        (''german'', (''de-DE'', ''de'')),
        (''italian'', (''it-IT'', ''it'')),
        (''portuguese'', (''pt-PT'', ''pt'')),
        (''russian'', (''ru-RU'', ''ru'')),
        (''chinese'', (''zh-CN'', ''zh'')),
        (''japanese'', (''ja-JP'', ''ja'')),
        (''korean'', (''ko-KR'', ''ko'')),
        (''hindi'', (''hi-IN'', ''hi'')),
        (''arabic'', (''ar-SA'', ''ar''))]"

section \<open>voice_assistant.py\<close>

text \<open>\<open>update_input_language\<close> and \<open>update_output_language\<close> of \<open>voice_assistant\<close> build
  the same lists as those of \<open>gui_app\<close>. The thread that \<open>process_text_message\<close> starts for
  \<open>play_response_audio\<close> is run where it is started.\<close>

definition play_response_audio :: "modules \<Rightarrow> gui \<Rightarrow> services \<Rightarrow> string \<Rightarrow> unit run" where
  "play_response_audio mods st env text =
     try_except
       (if AUDIO_PLAYBACK_AVAILABLE mods
        then call (Play_audio text (Some (translation_code (output_language st))))
               (play_audio env text (Some (translation_code (output_language st))))
        else ret ())
       (\<lambda>e. emit (Print (''Audio playback failed: '' @ str e)))"

definition voice_assistant_process_text_message ::
    "modules \<Rightarrow> gui \<Rightarrow> services \<Rightarrow> string \<Rightarrow> unit run" where
  "voice_assistant_process_text_message mods st env message =
     try_except
       (and_then (emit (Add_message User message)) (\<lambda>_.
        if \<not> GEMINI_AVAILABLE mods
        then emit (Add_message Error ''AI assistant not available'')
        else
        and_then (if TRANSLATOR_AVAILABLE mods \<and> translation_code (input_language st) \<noteq> ''en''
                  then call (Translate ''auto'' ''en'' message)
                         (translate env ''auto'' ''en'' message)
                  else ret message) (\<lambda>message_english.
        and_then (gemini_client ''ImprovedMultilingualGUI'' st) (\<lambda>_.
        and_then (chat_with_gemini env message_english) (\<lambda>response.
        and_then (if TRANSLATOR_AVAILABLE mods \<and> translation_code (output_language st) \<noteq> ''en''
                  then call (Translate ''en'' (translation_code (output_language st)) response)
                         (translate env ''en'' (translation_code (output_language st)) response)
                  else ret response) (\<lambda>response_translated.
        and_then (emit (Add_message Assistant response_translated)) (\<lambda>_.
        if AUDIO_PLAYBACK_AVAILABLE mods
        then and_then (emit (Thread_start (Play_response_audio response_translated))) (\<lambda>_.
             play_response_audio mods st env response_translated)
        else ret ())))))))
       (\<lambda>e. emit (Add_message Error (''Failed to process message: '' @ str e)))"

definition voice_assistant_send_text_message ::
    "modules \<Rightarrow> gui \<Rightarrow> services \<Rightarrow> gui \<times> event list" where
  "voice_assistant_send_text_message mods st env =
     (let message = strip (text_input st) in
      if message \<noteq> [] \<and> message \<noteq> ''Type message''
      then (let st' = st\<lparr>text_input := ''Type message''\<rparr> in
            (st', Thread_start (Process_text_message message) #
                    fst (voice_assistant_process_text_message mods st' env message)))
      else (st, []))"

definition voice_assistant_start_conversation :: "gui \<Rightarrow> gui \<times> event list" where
  "voice_assistant_start_conversation st =
     (if \<not> voice_enabled st
      then (st, [Messagebox Showwarning ''Voice Unavailable''
                   ''Voice input is not available.\<newline>Please install PyAudio and speech_recognition.''])
      else if conversation_active st
      then (st, [Messagebox Showinfo ''Already Active'' ''Conversation is already active!''])
      else (st\<lparr>conversation_active := True,
               start_btn := microphone @ '' Listening...'',
               status_label := microphone @ '' Listening''\<rparr>,
            [Thread_start Voice_conversation_loop]))"

text \<open>\<open>listen_for_voice\<close> returns \<open>True\<close>, \<open>False\<close>, or nothing (\<open>None\<close>) when the recognized
  text is blank.\<close>

definition listen_for_voice :: "modules \<Rightarrow> gui \<Rightarrow> heard \<Rightarrow> event list \<times> bool option" where
  "listen_for_voice mods st h =
     (case capture h of
        Inr text \<Rightarrow>
          if strip text \<noteq> []
          then (fst (voice_assistant_process_text_message mods st (answers h) text), Some True)
          else ([], None)
      | Inl (WaitTimeoutError m) \<Rightarrow> ([], Some True)
      | Inl (UnknownValueError m) \<Rightarrow>
          ([Add_message System ''Could not understand audio, please try again''], Some True)
      | Inl (Exception m) \<Rightarrow>
          ([Add_message Error (''Voice recognition error: '' @ m)], Some False))"

text \<open>The \<open>while\<close> of \<open>voice_conversation_loop\<close>: it leaves the window as it is.\<close>

fun conversation_while :: "modules \<Rightarrow> gui \<Rightarrow> heard list \<Rightarrow> event list \<times> loop_state" where
  "conversation_while mods st [] =
     ([], if conversation_active st then Listening else Returned)"
| "conversation_while mods st (h # hs) =
     (if \<not> conversation_active st then ([], Returned)
      else
        (case listen_for_voice mods st h of
           (tr, r) \<Rightarrow>
             if r = Some True
             then (case conversation_while mods st hs of (tr', l) \<Rightarrow> (tr @ Sleep 500 # tr', l))
             else (tr, Returned)))"

text \<open>The loop with its \<open>finally\<close> block, which runs once the \<open>while\<close> is left. Nothing
  in the \<open>while\<close> raises here (\<open>listen_for_voice\<close> catches every exception of the capture
  and of the turn), so the \<open>except\<close> clause of the loop has no case.\<close>

definition voice_conversation_loop ::
    "modules \<Rightarrow> gui \<Rightarrow> heard list \<Rightarrow> gui \<times> event list \<times> loop_state" where
  "voice_conversation_loop mods st hs =
     (case conversation_while mods st hs of
        (tr, Returned) \<Rightarrow>
          (st\<lparr>conversation_active := False,
              start_btn := microphone @ '' Start Conversation'',
              status_label := microphone @ '' Ready''\<rparr>, tr, Returned)
      | (tr, Listening) \<Rightarrow> (st, tr, Listening))"

section \<open>main.py\<close>

text \<open>How \<open>root.mainloop()\<close> ends.\<close>

datatype mainloop_end = Window_closed | KeyboardInterrupt | Raised exn

definition configuration_error :: string where
  "configuration_error =
     ''GEMINI_API_KEY not found!\<newline>\<newline>'' @
     ''Please add your Google Gemini API key to your .env file:\<newline>'' @
     ''GEMINI_API_KEY=your_api_key_here\<newline>\<newline>'' @
     ''Get your API key from: https://makersuite.google.com/''"

text \<open>\<open>main\<close>, given the process environment as it is once \<open>load_dotenv()\<close> has run.
  \<open>not os.environ.get(key)\<close> holds for a missing key and for an empty value.\<close>

definition main :: "(string \<rightharpoonup> string) \<Rightarrow> mainloop_end \<Rightarrow> event list" where
  "main environ ending =
     (if (case environ ''GEMINI_API_KEY'' of None \<Rightarrow> True | Some v \<Rightarrow> v = [])
      then [Tk, Withdraw, Messagebox Showerror ''Configuration Error'' configuration_error,
            Destroy]
      else [Tk, MultilingualGUI, Mainloop] @
           (case ending of
              Window_closed \<Rightarrow> []
            | KeyboardInterrupt \<Rightarrow>
                [Print (''\<newline>'' @ waving_hand @ '' Application closed by user.'')]
            | Raised e \<Rightarrow> [Print (cross_mark @ '' Application error: '' @ str e)]))"

section \<open>Names for the proofs, and concrete inputs\<close>

text \<open>The text that \<open>chat_with_gemini\<close> returns.\<close>

definition reply_of :: "services \<Rightarrow> string \<Rightarrow> string" where
  "reply_of env prompt =
     (case snd (chat_with_gemini env prompt) of Inl e \<Rightarrow> [] | Inr reply \<Rightarrow> reply)"

text \<open>
  The stages of a turn that the three pipelines share, named so that the lemmas can speak
  of them: the inbound translation, the outbound translation (with the state in which the
  code is tested and the state in which the target is read), and the playing of the file
  that speech synthesis returned. \<open>available\<close> is \<open>TRANSLATOR_AVAILABLE\<close> for
  \<open>voice_assistant\<close> and true for \<open>gui_app\<close>.
\<close>

definition inbound :: "bool \<Rightarrow> gui \<Rightarrow> services \<Rightarrow> string \<Rightarrow> string run" where
  "inbound available st env message =
     (if available \<and> translation_code (input_language st) \<noteq> ''en''
      then call (Translate ''auto'' ''en'' message) (translate env ''auto'' ''en'' message)
      else ret message)"

definition outbound :: "bool \<Rightarrow> gui \<Rightarrow> gui \<Rightarrow> services \<Rightarrow> string \<Rightarrow> string run" where
  "outbound available s2 s3 env response =
     (if available \<and> translation_code (output_language s2) \<noteq> ''en''
      then call (Translate ''en'' (translation_code (output_language s3)) response)
             (translate env ''en'' (translation_code (output_language s3)) response)
      else ret response)"

definition play_file :: "services \<Rightarrow> string option \<Rightarrow> unit run" where
  "play_file env audio_file =
     (case audio_file of
        None \<Rightarrow> ret ()
      | Some f \<Rightarrow> if f = [] then ret () else call (Play_audio f None) (play_audio env f None))"

text \<open>A window after start-up, with the client of the model in place.\<close>

definition ready_window :: gui where
  "ready_window = (setup_variables True)\<lparr>has_gemini_client := True\<rparr>"

text \<open>Services that all answer, and services of which the model and the speech fail.\<close>

definition echo_services :: services where
  "echo_services =
     \<lparr>translate = (\<lambda>source target text. Inr (target @ '': '' @ text)),
      generate_content = (\<lambda>prompt. Inr (Response (Inr ('' You said '' @ prompt @ '' '')))),
      gTTS_save = (\<lambda>text language. Inr ''/tmp/tmpa1b2c3.mp3''),
      play_audio = (\<lambda>file language. Inr ())\<rparr>"

definition failing_services :: services where
  "failing_services =
     \<lparr>translate = (\<lambda>source target text. Inr (target @ '': '' @ text)),
      generate_content = (\<lambda>prompt. Inl (Exception ''quota exceeded'')),
      gTTS_save = (\<lambda>text language. Inl (Exception ''Failed to connect'')),
      play_audio = (\<lambda>file language. Inr ())\<rparr>"

text \<open>An entry of white space outside ASCII: a no-break space U+00A0, an ideographic space
  U+3000 and a space.\<close>

definition no_break_spaces :: string where
  "no_break_spaces = [CHR 0xC2, CHR 0xA0, CHR 0xE3, CHR 0x80, CHR 0x80, CHR 0x20]"


text \<open>The window of \<open>gui_app\<close> once a conversation has been started.\<close>

definition active_window :: gui where
  "active_window = fst (gui_app_start_conversation ready_window)"

text \<open>A capture that timed out or was not understood.\<close>

definition no_speech :: "exn + string \<Rightarrow> bool" where
  "no_speech c =
     (case c of
        Inl (WaitTimeoutError m) \<Rightarrow> True
      | Inl (UnknownValueError m) \<Rightarrow> True
      | Inl (Exception m) \<Rightarrow> False
      | Inr text \<Rightarrow> False)"

text \<open>All modules imported, and four outcomes of a capture.\<close>

definition all_modules :: modules where
  "all_modules =
     \<lparr>SPEECH_AVAILABLE = True, PYAUDIO_AVAILABLE = True, TRANSLATOR_AVAILABLE = True,
      GEMINI_AVAILABLE = True, AUDIO_PLAYBACK_AVAILABLE = True\<rparr>"

definition timed_out :: heard where
  "timed_out = \<lparr>capture = Inl (WaitTimeoutError ''listening timed out''), answers = echo_services\<rparr>"

definition unintelligible :: heard where
  "unintelligible = \<lparr>capture = Inl (UnknownValueError []), answers = echo_services\<rparr>"

definition no_microphone :: heard where
  "no_microphone =
     \<lparr>capture = Inl (Exception ''No Default Input Device Available''),
      answers = echo_services\<rparr>"

definition said :: "string \<Rightarrow> heard" where
  "said text = \<lparr>capture = Inr text, answers = echo_services\<rparr>"

section \<open>Runs\<close>

lemma in_and_then:
  "x \<in> set (fst (and_then m f)) \<longleftrightarrow>
     x \<in> set (fst m) \<or> (\<exists>a. snd m = Inr a \<and> x \<in> set (fst (f a)))"
  by (cases m) (auto simp add: and_then_def split: sum.splits prod.splits)

lemma in_try_except:
  "x \<in> set (fst (try_except m h)) \<longleftrightarrow>
     x \<in> set (fst m) \<or> (\<exists>e. snd m = Inl e \<and> x \<in> set (fst (h e)))"
  by (cases m) (auto simp add: try_except_def split: sum.splits prod.splits)

lemma snd_and_then_Inr:
  "snd (and_then m f) = Inr b \<longleftrightarrow> (\<exists>a. snd m = Inr a \<and> snd (f a) = Inr b)"
  by (cases m) (auto simp add: and_then_def split: sum.splits prod.splits)

lemma snd_and_then_Inl:
  "snd (and_then m f) = Inl e \<longleftrightarrow>
     snd m = Inl e \<or> (\<exists>a. snd m = Inr a \<and> snd (f a) = Inl e)"
  by (cases m) (auto simp add: and_then_def split: sum.splits prod.splits)

lemma fst_and_then:
  "fst (and_then m f) = fst m @ (case snd m of Inl e \<Rightarrow> [] | Inr a \<Rightarrow> fst (f a))"
  by (cases m) (simp add: and_then_def split: sum.splits prod.splits)

lemma snd_and_then:
  "snd (and_then m f) = (case snd m of Inl e \<Rightarrow> Inl e | Inr a \<Rightarrow> snd (f a))"
  by (cases m) (simp add: and_then_def split: sum.splits prod.splits)

lemma fst_try_except:
  "fst (try_except m h) = fst m @ (case snd m of Inl e \<Rightarrow> fst (h e) | Inr a \<Rightarrow> [])"
  by (cases m) (simp add: try_except_def split: sum.splits prod.splits)

lemmas run_defs = and_then_def try_except_def ret_def raise_def emit_def call_def

lemmas string_defs = strip_def isspace_def whitespace_def continuation_def lower_def
  lower_char_def ascii_uppercase_def ascii_lowercase_def

lemmas fixture_defs = ready_window_def setup_variables_def english_def echo_services_def
  failing_services_def

section \<open>The adapters of gemini_client.py\<close>

lemma chat_with_gemini_cases:
  "chat_with_gemini env prompt =
     (case generate_content env prompt of
        Inl e \<Rightarrow> ([Generate_content prompt, Print (''Error generating response: '' @ str e)],
                  Inr fallback_reply)
      | Inr response \<Rightarrow>
          (case response_text response of
             Inl e \<Rightarrow> ([Generate_content prompt, Print (''Error generating response: '' @ str e)],
                       Inr fallback_reply)
           | Inr t \<Rightarrow> ([Generate_content prompt], Inr (strip t))))"
  by (simp add: chat_with_gemini_def run_defs split: sum.splits)

lemma snd_chat [simp]: "snd (chat_with_gemini env prompt) = Inr (reply_of env prompt)"
  by (simp add: chat_with_gemini_cases reply_of_def split: sum.splits)

lemma chat_events [simp]:
  "Generate_content p \<in> set (fst (chat_with_gemini env q)) \<longleftrightarrow> p = q"
  "Translate a b c \<notin> set (fst (chat_with_gemini env q))"
  "Add_message k m \<notin> set (fst (chat_with_gemini env q))"
  "GTTS t l \<notin> set (fst (chat_with_gemini env q))"
  "Play_audio f o' \<notin> set (fst (chat_with_gemini env q))"
  by (auto simp add: chat_with_gemini_cases split: sum.splits)

lemma text_to_speech_cases:
  "text_to_speech env t l =
     (case gTTS_save env t l of
        Inl e \<Rightarrow> ([GTTS t l, Print (''Error generating speech: '' @ str e)], Inr None)
      | Inr f \<Rightarrow> ([GTTS t l], Inr (Some f)))"
  by (simp add: text_to_speech_def run_defs split: sum.splits)

lemma tts_never_raises [simp]: "snd (text_to_speech env t l) \<noteq> Inl e"
  by (simp add: text_to_speech_cases split: sum.splits)

lemma tts_events [simp]:
  "GTTS t' l' \<in> set (fst (text_to_speech env t l)) \<longleftrightarrow> t' = t \<and> l' = l"
  "Translate a b c \<notin> set (fst (text_to_speech env t l))"
  "Add_message k m \<notin> set (fst (text_to_speech env t l))"
  "Generate_content p \<notin> set (fst (text_to_speech env t l))"
  "Play_audio f o' \<notin> set (fst (text_to_speech env t l))"
  by (auto simp add: text_to_speech_cases split: sum.splits)

section \<open>The stages of a turn\<close>

lemma play_file_eq:
  "play_file env =
     (\<lambda>audio_file. case audio_file of
        None \<Rightarrow> ret ()
      | Some f \<Rightarrow> if f = [] then ret () else call (Play_audio f None) (play_audio env f None))"
  by (rule ext) (simp add: play_file_def)

lemma gui_app_stages:
  "gui_app_process_text_message_at s1 s2 s3 s4 env message =
     try_except
       (and_then (emit (Add_message User message)) (\<lambda>_.
        and_then (inbound True s1 env message) (\<lambda>message_english.
        and_then (gemini_client ''MultilingualGUI'' s1) (\<lambda>_.
        and_then (chat_with_gemini env message_english) (\<lambda>response.
        and_then (outbound True s2 s3 env response) (\<lambda>translated_response.
        and_then (emit (Add_message Assistant translated_response)) (\<lambda>_.
        and_then (text_to_speech env translated_response
                    (translation_code (output_language s4))) (play_file env))))))))
       (\<lambda>e. emit (Add_message Error (''Error processing message: '' @ str e)))"
  unfolding gui_app_process_text_message_at_def inbound_def outbound_def play_file_eq
  by (simp only: simp_thms)

lemma process_voice_message_stages:
  "process_voice_message st env message =
     try_except
       (and_then (inbound True st env message) (\<lambda>message_english.
        and_then (gemini_client ''MultilingualGUI'' st) (\<lambda>_.
        and_then (chat_with_gemini env message_english) (\<lambda>response.
        and_then (outbound True st st env response) (\<lambda>translated_response.
        and_then (emit (Add_message Assistant translated_response)) (\<lambda>_.
        and_then (text_to_speech env translated_response
                    (translation_code (output_language st))) (play_file env)))))))
       (\<lambda>e. emit (Report_callback_exception ''NameError''))"
  unfolding process_voice_message_def inbound_def outbound_def play_file_eq
  by (simp only: simp_thms)

lemma voice_assistant_stages:
  "voice_assistant_process_text_message mods st env message =
     try_except
       (and_then (emit (Add_message User message)) (\<lambda>_.
        if \<not> GEMINI_AVAILABLE mods
        then emit (Add_message Error ''AI assistant not available'')
        else
        and_then (inbound (TRANSLATOR_AVAILABLE mods) st env message) (\<lambda>message_english.
        and_then (gemini_client ''ImprovedMultilingualGUI'' st) (\<lambda>_.
        and_then (chat_with_gemini env message_english) (\<lambda>response.
        and_then (outbound (TRANSLATOR_AVAILABLE mods) st st env response) (\<lambda>response_translated.
        and_then (emit (Add_message Assistant response_translated)) (\<lambda>_.
        if AUDIO_PLAYBACK_AVAILABLE mods
        then and_then (emit (Thread_start (Play_response_audio response_translated))) (\<lambda>_.
             play_response_audio mods st env response_translated)
        else ret ())))))))
       (\<lambda>e. emit (Add_message Error (''Failed to process message: '' @ str e)))"
  unfolding voice_assistant_process_text_message_def inbound_def outbound_def
  by (simp only: simp_thms)

lemma in_emit [simp]: "x \<in> set (fst (emit ev)) \<longleftrightarrow> x = ev"
  by (auto simp add: emit_def)

lemma snd_emit [simp]: "snd (emit ev) = Inr ()"
  by (simp add: emit_def)

lemma in_ret [simp]: "x \<notin> set (fst (ret a))"
  by (simp add: ret_def)

lemma snd_ret [simp]: "snd (ret a) = Inr a"
  by (simp add: ret_def)

lemma in_inbound [simp]:
  "x \<in> set (fst (inbound available st env message)) \<longleftrightarrow>
     available \<and> translation_code (input_language st) \<noteq> ''en'' \<and>
     x = Translate ''auto'' ''en'' message"
  by (auto simp add: inbound_def call_def ret_def)

lemma snd_inbound [simp]:
  "snd (inbound available st env message) = r \<longleftrightarrow>
     available \<and> translation_code (input_language st) \<noteq> ''en'' \<and>
       translate env ''auto'' ''en'' message = r \<or>
     (translation_code (input_language st) \<noteq> ''en'' \<longrightarrow> \<not> available) \<and> r = Inr message"
  by (auto simp add: inbound_def call_def ret_def)

lemma in_outbound [simp]:
  "x \<in> set (fst (outbound available s2 s3 env response)) \<longleftrightarrow>
     available \<and> translation_code (output_language s2) \<noteq> ''en'' \<and>
     x = Translate ''en'' (translation_code (output_language s3)) response"
  by (auto simp add: outbound_def call_def ret_def)

lemma snd_outbound [simp]:
  "snd (outbound available s2 s3 env response) = r \<longleftrightarrow>
     available \<and> translation_code (output_language s2) \<noteq> ''en'' \<and>
       translate env ''en'' (translation_code (output_language s3)) response = r \<or>
     (translation_code (output_language s2) \<noteq> ''en'' \<longrightarrow> \<not> available) \<and> r = Inr response"
  by (auto simp add: outbound_def call_def ret_def)

lemma in_gemini_client [simp]: "x \<notin> set (fst (gemini_client c st))"
  by (simp add: gemini_client_def ret_def raise_def)

lemma snd_gemini_client_Inr [simp]: "snd (gemini_client c st) = Inr u \<longleftrightarrow> has_gemini_client st"
  by (simp add: gemini_client_def ret_def raise_def)

lemma snd_gemini_client_Inl:
  "snd (gemini_client c st) = Inl e \<longleftrightarrow>
     \<not> has_gemini_client st \<and>
     e = Exception (quoted c @ '' object has no attribute '' @ quoted ''gemini_client'')"
  by (auto simp add: gemini_client_def ret_def raise_def)

lemma in_play_file [simp]:
  "x \<in> set (fst (play_file env audio_file)) \<longleftrightarrow>
     (\<exists>f. audio_file = Some f \<and> f \<noteq> [] \<and> x = Play_audio f None)"
  by (auto simp add: play_file_def call_def ret_def split: option.splits)

lemma snd_play_file_Inl [simp]:
  "snd (play_file env audio_file) = Inl e \<longleftrightarrow>
     (\<exists>f. audio_file = Some f \<and> f \<noteq> [] \<and> play_audio env f None = Inl e)"
  by (auto simp add: play_file_def call_def ret_def split: option.splits)

lemma in_play_response_audio [simp]:
  "Translate a b c \<notin> set (fst (play_response_audio mods st env text))"
  "Generate_content p \<notin> set (fst (play_response_audio mods st env text))"
  "Add_message k m \<notin> set (fst (play_response_audio mods st env text))"
  by (auto simp add: play_response_audio_def in_try_except call_def ret_def emit_def)

lemma snd_tts [simp]:
  "snd (text_to_speech env t l) = Inr audio_file \<longleftrightarrow>
     (case gTTS_save env t l of Inl e \<Rightarrow> None | Inr f \<Rightarrow> Some f) = audio_file"
  by (auto simp add: text_to_speech_cases split: sum.splits)

lemmas stages = gui_app_process_text_message_def gui_app_stages process_voice_message_stages
  voice_assistant_stages

lemmas in_stage = in_and_then in_try_except snd_and_then_Inr snd_and_then_Inl


section \<open>Properties of a turn\<close>

text \<open>
  C2. \<open>chat_with_gemini\<close> never ends with an exception: whatever the service does, it returns
  a text, and when the request or the reading of \<open>response.text\<close> raises, that text is the
  fixed apology. A turn of \<open>process_text_message\<close> that reaches the model therefore goes on
  with a reply: the reply is shown as the assistant's message, or is handed to the outbound
  translation.
\<close>

theorem chat_with_gemini_fallback:
  "(\<exists>reply. snd (chat_with_gemini env prompt) = Inr reply) \<and>
   (generate_content env prompt = Inl e \<longrightarrow>
      snd (chat_with_gemini env prompt) = Inr fallback_reply) \<and>
   (generate_content env prompt = Inr response \<and> response_text response = Inl e \<longrightarrow>
      snd (chat_with_gemini env prompt) = Inr fallback_reply) \<and>
   (Generate_content p \<in> set (fst (gui_app_process_text_message st env message)) \<longrightarrow>
      Add_message Assistant (reply_of env p)
        \<in> set (fst (gui_app_process_text_message st env message)) \<or>
      Translate ''en'' (translation_code (output_language st)) (reply_of env p)
        \<in> set (fst (gui_app_process_text_message st env message)))"
proof (intro conjI)
  show "\<exists>reply. snd (chat_with_gemini env prompt) = Inr reply"
    by simp
  show "generate_content env prompt = Inl e \<longrightarrow>
      snd (chat_with_gemini env prompt) = Inr fallback_reply"
    by (simp add: chat_with_gemini_cases)
  show "generate_content env prompt = Inr response \<and> response_text response = Inl e \<longrightarrow>
      snd (chat_with_gemini env prompt) = Inr fallback_reply"
    by (simp add: chat_with_gemini_cases)
  show "Generate_content p \<in> set (fst (gui_app_process_text_message st env message)) \<longrightarrow>
      Add_message Assistant (reply_of env p)
        \<in> set (fst (gui_app_process_text_message st env message)) \<or>
      Translate ''en'' (translation_code (output_language st)) (reply_of env p)
        \<in> set (fst (gui_app_process_text_message st env message))"
    by (auto simp add: stages in_stage)
qed

theorem chat_with_gemini_fallback_witness:
  "generate_content failing_services ''Hello'' = Inl (Exception ''quota exceeded'') \<and>
   snd (chat_with_gemini failing_services ''Hello'') = Inr fallback_reply \<and>
   Generate_content ''Hello''
     \<in> set (fst (gui_app_process_text_message ready_window failing_services ''Hello'')) \<and>
   Add_message Assistant fallback_reply
     \<in> set (fst (gui_app_process_text_message ready_window failing_services ''Hello''))"
proof -
  have failed: "generate_content failing_services ''Hello'' = Inl (Exception ''quota exceeded'')"
    by (simp add: failing_services_def)
  have reply: "reply_of failing_services ''Hello'' = fallback_reply"
    by (simp add: reply_of_def chat_with_gemini_cases failing_services_def)
  have reached: "Generate_content ''Hello''
     \<in> set (fst (gui_app_process_text_message ready_window failing_services ''Hello''))"
    by (simp add: stages in_stage fixture_defs)
  have no_translation:
    "Translate ''en'' (translation_code (output_language ready_window)) fallback_reply
     \<notin> set (fst (gui_app_process_text_message ready_window failing_services ''Hello''))"
    by (simp add: stages in_stage fixture_defs)
  from chat_with_gemini_fallback [where env = failing_services and prompt = "''Hello''"
      and e = "Exception ''quota exceeded''" and p = "''Hello''" and st = ready_window
      and message = "''Hello''"]
  show ?thesis
    using failed reply reached no_translation by simp
qed

text \<open>
  C3. When the code of the input language is \<open>en\<close>, a turn makes no inbound translation
  request (none with the source \<open>auto\<close>), and the only prompt that can reach the model is
  the text the turn was given, character for character; it does reach the model when the
  client is in place. This holds for \<open>process_text_message\<close> of both windows and for
  \<open>process_voice_message\<close>.
\<close>

theorem english_input_skips_inbound_translation:
  assumes "translation_code (input_language st) = ''en''"
  shows
    "Translate ''auto'' tgt x \<notin> set (fst (gui_app_process_text_message st env message)) \<and>
     (Generate_content p \<in> set (fst (gui_app_process_text_message st env message)) \<longrightarrow>
        p = message) \<and>
     (has_gemini_client st \<longrightarrow>
        Generate_content message \<in> set (fst (gui_app_process_text_message st env message))) \<and>
     Translate ''auto'' tgt x
       \<notin> set (fst (voice_assistant_process_text_message mods st env message)) \<and>
     (Generate_content p \<in> set (fst (voice_assistant_process_text_message mods st env message)) \<longrightarrow>
        p = message) \<and>
     (GEMINI_AVAILABLE mods \<and> has_gemini_client st \<longrightarrow>
        Generate_content message
          \<in> set (fst (voice_assistant_process_text_message mods st env message))) \<and>
     Translate ''auto'' tgt x \<notin> set (fst (process_voice_message st env message)) \<and>
     (Generate_content p \<in> set (fst (process_voice_message st env message)) \<longrightarrow>
        p = message) \<and>
     (has_gemini_client st \<longrightarrow>
        Generate_content message \<in> set (fst (process_voice_message st env message)))"
proof -
  have gui: "Translate ''auto'' tgt x \<notin> set (fst (gui_app_process_text_message st env message)) \<and>
     (Generate_content p \<in> set (fst (gui_app_process_text_message st env message)) \<longrightarrow>
        p = message) \<and>
     (has_gemini_client st \<longrightarrow>
        Generate_content message \<in> set (fst (gui_app_process_text_message st env message)))"
    using assms by (auto simp add: stages in_stage)
  have va: "Translate ''auto'' tgt x
       \<notin> set (fst (voice_assistant_process_text_message mods st env message)) \<and>
     (Generate_content p \<in> set (fst (voice_assistant_process_text_message mods st env message)) \<longrightarrow>
        p = message) \<and>
     (GEMINI_AVAILABLE mods \<and> has_gemini_client st \<longrightarrow>
        Generate_content message
          \<in> set (fst (voice_assistant_process_text_message mods st env message)))"
    using assms by (auto simp add: stages in_stage)
  have voice: "Translate ''auto'' tgt x \<notin> set (fst (process_voice_message st env message)) \<and>
     (Generate_content p \<in> set (fst (process_voice_message st env message)) \<longrightarrow>
        p = message) \<and>
     (has_gemini_client st \<longrightarrow>
        Generate_content message \<in> set (fst (process_voice_message st env message)))"
    using assms by (auto simp add: stages in_stage)
  from gui va voice show ?thesis by simp
qed

theorem english_input_skips_inbound_translation_witness:
  "translation_code (input_language ready_window) = ''en'' \<and>
   Translate ''auto'' ''en'' ''Hello''
     \<notin> set (fst (gui_app_process_text_message ready_window echo_services ''Hello'')) \<and>
   Generate_content ''Hello''
     \<in> set (fst (gui_app_process_text_message ready_window echo_services ''Hello''))"
proof -
  have en: "translation_code (input_language ready_window) = ''en''"
    by (simp add: fixture_defs)
  have client: "has_gemini_client ready_window"
    by (simp add: fixture_defs)
  from english_input_skips_inbound_translation [OF en, where tgt = "''en''" and x = "''Hello''"
      and env = echo_services and message = "''Hello''"]
  show ?thesis using en client by simp
qed




lemma failed_speech_run:
  assumes fails: "gTTS_save env t l = Inl e"
  shows "and_then (text_to_speech env t l) (play_file env) =
           ([GTTS t l, Print (''Error generating speech: '' @ str e)], Inr ())"
  using fails by (simp add: text_to_speech_cases and_then_def play_file_def ret_def)

text \<open>
  C6. When speech synthesis yields no file for the text \<open>t\<close> of a turn of
  \<open>process_text_message\<close> (\<open>text_to_speech\<close> returns \<open>None\<close>, which it does exactly when
  \<open>gTTS\<close> raised), the turn still ends without an exception: the user's message and the
  assistant's message with \<open>t\<close> are already on the display, the request for speech and the
  line \<open>Error generating speech: ...\<close> on standard output are the last two events, no error
  message is added to the display and nothing is played.
\<close>

theorem speech_failure_keeps_the_text:
  assumes spoken: "GTTS t l \<in> set (fst (gui_app_process_text_message st env message))"
    and fails: "snd (text_to_speech env t l) = Inr None"
  shows "\<exists>e before.
           gTTS_save env t l = Inl e \<and>
           gui_app_process_text_message st env message =
             (before @ [Add_message Assistant t, GTTS t l,
                        Print (''Error generating speech: '' @ str e)], Inr ()) \<and>
           Add_message User message \<in> set before \<and>
           (\<forall>m. Add_message Error m \<notin> set before) \<and>
           (\<forall>f language. Play_audio f language \<notin> set before)"
proof -
  from fails obtain e where e: "gTTS_save env t l = Inl e"
    by (auto split: sum.splits)
  let ?inbound = "inbound True st env message"
  from spoken obtain message_english where
    inb: "snd ?inbound = Inr message_english" and client: "has_gemini_client st" and
    outb: "snd (outbound True st st env (reply_of env message_english)) = Inr t" and
    l: "l = translation_code (output_language st)"
    by (auto simp add: stages in_stage)
  let ?before = "Add_message User message # fst ?inbound @
                  fst (chat_with_gemini env message_english) @
                  fst (outbound True st st env (reply_of env message_english))"
  have speech: "and_then (text_to_speech env t (translation_code (output_language st)))
                  (play_file env) =
                ([GTTS t l, Print (''Error generating speech: '' @ str e)], Inr ())"
    using failed_speech_run [OF e] l by simp
  have body: "and_then (emit (Add_message User message)) (\<lambda>_.
        and_then (inbound True st env message) (\<lambda>message_english.
        and_then (gemini_client ''MultilingualGUI'' st) (\<lambda>_.
        and_then (chat_with_gemini env message_english) (\<lambda>response.
        and_then (outbound True st st env response) (\<lambda>translated_response.
        and_then (emit (Add_message Assistant translated_response)) (\<lambda>_.
        and_then (text_to_speech env translated_response
                    (translation_code (output_language st))) (play_file env))))))) =
      (?before @ [Add_message Assistant t, GTTS t l,
                  Print (''Error generating speech: '' @ str e)], Inr ())"
    by (simp add: prod_eq_iff fst_and_then snd_and_then speech emit_def gemini_client_def
        ret_def client inb outb del: snd_inbound snd_outbound)
  have run: "gui_app_process_text_message st env message =
      (?before @ [Add_message Assistant t, GTTS t l,
                  Print (''Error generating speech: '' @ str e)], Inr ())"
    unfolding stages body by (simp add: try_except_def)
  have before: "Add_message User message \<in> set ?before \<and>
            (\<forall>m. Add_message Error m \<notin> set ?before) \<and>
            (\<forall>f language. Play_audio f language \<notin> set ?before)"
    by auto
  show ?thesis
    using e run before by blast
qed

theorem speech_failure_keeps_the_text_witness:
  "GTTS fallback_reply ''en''
     \<in> set (fst (gui_app_process_text_message ready_window failing_services ''Hello'')) \<and>
   snd (text_to_speech failing_services fallback_reply ''en'') = Inr None \<and>
   gui_app_process_text_message ready_window failing_services ''Hello'' =
     ([Add_message User ''Hello'', Generate_content ''Hello'',
       Print ''Error generating response: quota exceeded'',
       Add_message Assistant fallback_reply, GTTS fallback_reply ''en'',
       Print ''Error generating speech: Failed to connect''], Inr ())"
proof -
  have run: "gui_app_process_text_message ready_window failing_services ''Hello'' =
     ([Add_message User ''Hello'', Generate_content ''Hello'',
       Print ''Error generating response: quota exceeded'',
       Add_message Assistant fallback_reply, GTTS fallback_reply ''en'',
       Print ''Error generating speech: Failed to connect''], Inr ())"
    by (simp add: gui_app_process_text_message_def gui_app_process_text_message_at_def
        gemini_client_def chat_with_gemini_cases text_to_speech_cases run_defs fixture_defs)
  have spoken: "GTTS fallback_reply ''en''
     \<in> set (fst (gui_app_process_text_message ready_window failing_services ''Hello''))"
    by (simp add: run)
  have fails: "snd (text_to_speech failing_services fallback_reply ''en'') = Inr None"
    by (simp add: text_to_speech_cases failing_services_def)
  from speech_failure_keeps_the_text [OF spoken fails] spoken fails run
  show ?thesis by simp
qed

section \<open>The text entry\<close>

lemma strip_blank: "list_all isspace (characters s) \<Longrightarrow> strip s = []"
proof -
  assume "list_all isspace (characters s)"
  then have "dropWhile isspace (characters s) = []"
    by (simp add: dropWhile_eq_Nil_conv list_all_iff)
  then show ?thesis by (simp only: strip_def rev.simps dropWhile.simps concat.simps)
qed

lemma gui_app_turn_starts:
  "\<exists>rest. fst (gui_app_process_text_message st env message) = Add_message User message # rest"
  by (simp add: stages fst_try_except fst_and_then emit_def)

lemma voice_assistant_turn_starts:
  "\<exists>rest. fst (voice_assistant_process_text_message mods st env message) =
     Add_message User message # rest"
  by (simp add: stages fst_try_except fst_and_then emit_def)

text \<open>
  C10. \<open>send_text_message\<close> of either window does nothing at all (the window is unchanged,
  no thread is started, no message is added, no service is asked) when the entry, once
  stripped, is empty or is the placeholder \<open>Type message\<close>; an entry whose characters are
  all white space, ASCII or not, is such an entry. Otherwise it starts the thread of a turn
  on the stripped text, and the first event of the turn is the user's message.
\<close>

theorem send_text_message_starts_a_turn_iff:
  "(strip (text_input st) = [] \<or> strip (text_input st) = ''Type message'' \<longrightarrow>
      gui_app_send_text_message st env = (st, []) \<and>
      voice_assistant_send_text_message mods st env = (st, [])) \<and>
   (strip (text_input st) \<noteq> [] \<and> strip (text_input st) \<noteq> ''Type message'' \<longrightarrow>
      (\<exists>rest. snd (gui_app_send_text_message st env) =
         Thread_start (Process_text_message (strip (text_input st))) #
         Add_message User (strip (text_input st)) # rest) \<and>
      (\<exists>rest. snd (voice_assistant_send_text_message mods st env) =
         Thread_start (Process_text_message (strip (text_input st))) #
         Add_message User (strip (text_input st)) # rest)) \<and>
   (list_all isspace (characters (text_input st)) \<longrightarrow> strip (text_input st) = [])"
proof (intro conjI impI)
  assume "strip (text_input st) = [] \<or> strip (text_input st) = ''Type message''"
  then show "gui_app_send_text_message st env = (st, [])"
    and "voice_assistant_send_text_message mods st env = (st, [])"
    by (auto simp add: gui_app_send_text_message_def voice_assistant_send_text_message_def)
next
  assume turn: "strip (text_input st) \<noteq> [] \<and> strip (text_input st) \<noteq> ''Type message''"
  let ?st = "st\<lparr>text_input := ''Type message''\<rparr>"
  from gui_app_turn_starts [of ?st env "strip (text_input st)"] turn
  show "\<exists>rest. snd (gui_app_send_text_message st env) =
         Thread_start (Process_text_message (strip (text_input st))) #
         Add_message User (strip (text_input st)) # rest"
    by (simp add: gui_app_send_text_message_def Let_def)
  from voice_assistant_turn_starts [of mods ?st env "strip (text_input st)"] turn
  show "\<exists>rest. snd (voice_assistant_send_text_message mods st env) =
         Thread_start (Process_text_message (strip (text_input st))) #
         Add_message User (strip (text_input st)) # rest"
    by (simp add: voice_assistant_send_text_message_def Let_def)
next
  assume "list_all isspace (characters (text_input st))"
  then show "strip (text_input st) = []"
    by (rule strip_blank)
qed

theorem send_text_message_starts_a_turn_iff_witness:
  "strip (text_input (ready_window\<lparr>text_input := '' Type message ''\<rparr>)) = ''Type message'' \<and>
   gui_app_send_text_message (ready_window\<lparr>text_input := '' Type message ''\<rparr>) echo_services =
     (ready_window\<lparr>text_input := '' Type message ''\<rparr>, []) \<and>
   list_all isspace
     (characters (text_input (ready_window\<lparr>text_input := no_break_spaces\<rparr>))) \<and>
   gui_app_send_text_message (ready_window\<lparr>text_input := no_break_spaces\<rparr>) echo_services =
     (ready_window\<lparr>text_input := no_break_spaces\<rparr>, []) \<and>
   strip (text_input (ready_window\<lparr>text_input := '' Hello ''\<rparr>)) = ''Hello'' \<and>
   (\<exists>rest. snd (gui_app_send_text_message (ready_window\<lparr>text_input := '' Hello ''\<rparr>)
            echo_services) =
      Thread_start (Process_text_message ''Hello'') # Add_message User ''Hello'' # rest)"
proof -
  have placeholder:
    "strip (text_input (ready_window\<lparr>text_input := '' Type message ''\<rparr>)) = ''Type message''"
    by (simp add: string_defs)
  have blank:
    "list_all isspace
       (characters (text_input (ready_window\<lparr>text_input := no_break_spaces\<rparr>)))"
    by (simp add: no_break_spaces_def string_defs)
  have hello: "strip (text_input (ready_window\<lparr>text_input := '' Hello ''\<rparr>)) = ''Hello''"
    by (simp add: string_defs)
  from send_text_message_starts_a_turn_iff
         [where st = "ready_window\<lparr>text_input := '' Type message ''\<rparr>" and env = echo_services]
       send_text_message_starts_a_turn_iff
         [where st = "ready_window\<lparr>text_input := no_break_spaces\<rparr>" and env = echo_services]
       send_text_message_starts_a_turn_iff
         [where st = "ready_window\<lparr>text_input := '' Hello ''\<rparr>" and env = echo_services]
       placeholder blank hello
  show ?thesis by simp
qed

section \<open>Start-up\<close>

text \<open>
  C8. When the key \<open>GEMINI_API_KEY\<close> is absent from the environment, \<open>main\<close> does exactly
  this: it creates a hidden root window, shows one error box titled \<open>Configuration Error\<close>,
  destroys the root window and returns. The application window is never built, the main
  loop never runs (so no conversation can start), and nothing is printed.
\<close>

theorem missing_api_key_is_reported_once:
  assumes "environ ''GEMINI_API_KEY'' = None"
  shows "main environ ending =
           [Tk, Withdraw, Messagebox Showerror ''Configuration Error'' configuration_error,
            Destroy] \<and>
         MultilingualGUI \<notin> set (main environ ending) \<and>
         Mainloop \<notin> set (main environ ending) \<and>
         (\<forall>line. Print line \<notin> set (main environ ending)) \<and>
         length (filter (\<lambda>ev. \<exists>kind title text. ev = Messagebox kind title text)
                   (main environ ending)) = 1"
  using assms by (simp add: main_def)

theorem missing_api_key_is_reported_once_witness:
  "Map.empty ''GEMINI_API_KEY'' = None \<and>
   main Map.empty Window_closed =
     [Tk, Withdraw, Messagebox Showerror ''Configuration Error'' configuration_error, Destroy]"
proof -
  have missing: "(Map.empty :: string \<rightharpoonup> string) ''GEMINI_API_KEY'' = None"
    by simp
  from missing_api_key_is_reported_once [OF missing, of Window_closed] missing
  show ?thesis by simp
qed

lemma key_present_starts_the_window:
  "main [''GEMINI_API_KEY'' \<mapsto> ''secret''] Window_closed = [Tk, MultilingualGUI, Mainloop]"
  by (simp add: main_def)

section \<open>Starting a conversation\<close>

text \<open>
  C7, as amended. A request to start a conversation while one is active leaves the window
  as it is and starts no thread, in both windows. \<open>voice_assistant\<close> then shows the
  information box \<open>Already Active\<close> (voice input being enabled); \<open>gui_app\<close> shows nothing
  and adds no message (its client being in place).
\<close>

theorem duplicate_start_is_ignored:
  assumes "conversation_active st"
  shows "fst (gui_app_start_conversation st) = st \<and>
         Thread_start t \<notin> set (snd (gui_app_start_conversation st)) \<and>
         (has_gemini_client st \<longrightarrow> snd (gui_app_start_conversation st) = []) \<and>
         fst (voice_assistant_start_conversation st) = st \<and>
         Thread_start t \<notin> set (snd (voice_assistant_start_conversation st)) \<and>
         (voice_enabled st \<longrightarrow>
            snd (voice_assistant_start_conversation st) =
              [Messagebox Showinfo ''Already Active'' ''Conversation is already active!''])"
  using assms
  by (simp add: gui_app_start_conversation_def voice_assistant_start_conversation_def)

theorem duplicate_start_is_ignored_witness:
  "conversation_active active_window \<and>
   gui_app_start_conversation active_window = (active_window, []) \<and>
   voice_assistant_start_conversation active_window =
     (active_window, [Messagebox Showinfo ''Already Active'' ''Conversation is already active!''])"
proof -
  have active: "conversation_active active_window"
    by (simp add: active_window_def gui_app_start_conversation_def fixture_defs)
  have client: "has_gemini_client active_window"
    by (simp add: active_window_def gui_app_start_conversation_def fixture_defs)
  have voice: "voice_enabled active_window"
    by (simp add: active_window_def gui_app_start_conversation_def fixture_defs)
  from duplicate_start_is_ignored [OF active, of Voice_loop] active client voice
  show ?thesis by (simp add: prod_eq_iff)
qed

text \<open>
  C7 as stated fails for \<open>gui_app\<close>: after a first request has started the loop, a second
  request is dropped without any notice.
\<close>

theorem duplicate_start_without_notice:
  "snd (gui_app_start_conversation ready_window) =
     [Add_message System (microphone @ '' Voice conversation started. Speak now...''),
      Thread_start Voice_loop] \<and>
   conversation_active (fst (gui_app_start_conversation ready_window)) \<and>
   gui_app_start_conversation (fst (gui_app_start_conversation ready_window)) =
     (fst (gui_app_start_conversation ready_window), [])"
  by (simp add: gui_app_start_conversation_def fixture_defs)

section \<open>The listening loops\<close>

lemma no_speech_cases:
  "no_speech c \<longleftrightarrow> (\<exists>m. c = Inl (WaitTimeoutError m)) \<or> (\<exists>m. c = Inl (UnknownValueError m))"
  by (auto simp add: no_speech_def split: sum.splits exn.splits)

lemma voice_loop_body_no_speech:
  assumes "no_speech (capture h)"
  shows "fst (voice_loop_body st h) = st"
    and "snd (snd (voice_loop_body st h)) = Next"
    and "Add_message Error m \<in> set (fst (snd (voice_loop_body st h))) \<Longrightarrow>
           m = ''Could not understand audio''"
  using assms by (auto simp add: no_speech_cases voice_loop_body_def)

lemma voice_loop_append:
  assumes "conversation_active st" and "list_all (\<lambda>h. no_speech (capture h)) hs"
  shows "voice_loop st (hs @ rest) =
           (fst (voice_loop st rest),
            fst (snd (voice_loop st hs)) @ fst (snd (voice_loop st rest)),
            snd (snd (voice_loop st rest)))"
  using assms
proof (induction hs)
  case Nil
  then show ?case by simp
next
  case (Cons h hs)
  from Cons.prems have h: "no_speech (capture h)" by simp
  obtain tr where body: "voice_loop_body st h = (st, tr, Next)"
    using voice_loop_body_no_speech(1,2) [OF h, of st]
    by (cases "voice_loop_body st h") auto
  from Cons show ?case
    by (simp add: body split: prod.splits)
qed

lemma voice_loop_keeps_listening:
  assumes "conversation_active st" and "list_all (\<lambda>h. no_speech (capture h)) hs"
  shows "fst (voice_loop st hs) = st \<and> snd (snd (voice_loop st hs)) = Listening"
  using voice_loop_append [OF assms, of "[]"] assms(1) by (simp add: prod_eq_iff)

lemma listen_for_voice_no_speech:
  assumes "no_speech (capture h)"
  shows "snd (listen_for_voice mods st h) = Some True"
    and "Add_message Error m \<notin> set (fst (listen_for_voice mods st h))"
  using assms by (auto simp add: no_speech_cases listen_for_voice_def)

lemma conversation_while_append:
  assumes "conversation_active st" and "list_all (\<lambda>h. no_speech (capture h)) hs"
  shows "conversation_while mods st (hs @ rest) =
           (fst (conversation_while mods st hs) @ fst (conversation_while mods st rest),
            snd (conversation_while mods st rest))"
  using assms
proof (induction hs)
  case Nil
  then show ?case by simp
next
  case (Cons h hs)
  from Cons.prems have h: "no_speech (capture h)" by simp
  obtain tr where pass: "listen_for_voice mods st h = (tr, Some True)"
    using listen_for_voice_no_speech(1) [OF h, of mods st]
    by (cases "listen_for_voice mods st h") auto
  from Cons show ?case
    by (simp add: pass split: prod.splits)
qed

lemma conversation_while_no_error:
  assumes "list_all (\<lambda>h. no_speech (capture h)) hs"
  shows "Add_message Error m \<notin> set (fst (conversation_while mods st hs))"
  using assms
proof (induction hs)
  case Nil
  then show ?case by simp
next
  case (Cons h hs)
  from Cons.prems have h: "no_speech (capture h)" by simp
  obtain tr where pass: "listen_for_voice mods st h = (tr, Some True)"
    using listen_for_voice_no_speech(1) [OF h, of mods st]
    by (cases "listen_for_voice mods st h") auto
  from listen_for_voice_no_speech(2) [OF h, of m mods st] pass
  have "Add_message Error m \<notin> set tr" by simp
  with Cons show ?case
    by (auto simp add: pass split: prod.splits)
qed

lemma conversation_while_keeps_listening:
  assumes "conversation_active st" and "list_all (\<lambda>h. no_speech (capture h)) hs"
  shows "snd (conversation_while mods st hs) = Listening"
  using conversation_while_append [OF assms, of mods "[]"] assms(1) by (simp add: prod_eq_iff)

text \<open>
  C1, as amended. In \<open>voice_loop\<close> of \<open>gui_app\<close> a recognized utterance ends the loop
  exactly when its lower-cased text, not stripped, is one of \<open>stop\<close>, \<open>exit\<close>, \<open>quit\<close>,
  \<open>goodbye\<close>: the pass then runs \<open>stop_conversation\<close> and nothing else (no user message, no
  translation, no request to the model), and the loop returns whatever is heard later.
  Any other utterance, such as \<open>please stop now\<close>, is shown and processed, and the loop
  goes on. \<open>listen_for_voice\<close> of \<open>voice_assistant\<close> has no stop words: every utterance
  that is not blank is processed as a turn.
\<close>

theorem stop_word_ends_voice_loop:
  assumes heard: "capture h = Inr user_text"
  shows
    "(snd (snd (voice_loop_body st h)) = Break \<longleftrightarrow> lower user_text \<in> set stop_words) \<and>
     (lower user_text \<in> set stop_words \<longrightarrow>
        voice_loop_body st h =
          (st\<lparr>conversation_active := False,
              start_btn := microphone @ '' Start Conversation'',
              status_label := ''Ready''\<rparr>,
           [Add_message System (stop_sign @ '' Voice conversation stopped.'')], Break) \<and>
        (conversation_active st \<longrightarrow>
           voice_loop st (h # later) =
             (st\<lparr>conversation_active := False,
                 start_btn := microphone @ '' Start Conversation'',
                 status_label := ''Ready''\<rparr>,
              [Add_message System (stop_sign @ '' Voice conversation stopped.'')], Returned))) \<and>
     (lower user_text \<notin> set stop_words \<longrightarrow>
        voice_loop_body st h =
          (st, Add_message User user_text #
                 fst (process_voice_message st (answers h) user_text), Next)) \<and>
     list_all (\<lambda>u. lower u \<in> set stop_words) [''stop'', ''Exit'', ''QUIT'', ''goodbye''] \<and>
     lower ''please stop now'' \<notin> set stop_words \<and>
     (strip user_text \<noteq> [] \<longrightarrow>
        listen_for_voice mods st h =
          (fst (voice_assistant_process_text_message mods st (answers h) user_text), Some True))"
proof -
  have words: "list_all (\<lambda>u. lower u \<in> set stop_words) [''stop'', ''Exit'', ''QUIT'', ''goodbye'']"
    by (simp add: stop_words_def string_defs)
  have sentence: "lower ''please stop now'' \<notin> set stop_words"
    by (simp add: stop_words_def string_defs)
  have body: "voice_loop_body st h =
     (if lower user_text \<in> set stop_words
      then (st\<lparr>conversation_active := False,
               start_btn := microphone @ '' Start Conversation'',
               status_label := ''Ready''\<rparr>,
            [Add_message System (stop_sign @ '' Voice conversation stopped.'')], Break)
      else (st, Add_message User user_text #
                  fst (process_voice_message st (answers h) user_text), Next))"
    using heard by (simp add: voice_loop_body_def gui_app_stop_conversation_def)
  have listen: "strip user_text \<noteq> [] \<longrightarrow>
        listen_for_voice mods st h =
          (fst (voice_assistant_process_text_message mods st (answers h) user_text), Some True)"
    using heard by (simp add: listen_for_voice_def)
  from words sentence listen show ?thesis
    by (simp add: body)
qed

theorem stop_word_ends_voice_loop_witness:
  "capture (said ''Goodbye'') = Inr ''Goodbye'' \<and>
   lower ''Goodbye'' \<in> set stop_words \<and>
   conversation_active active_window \<and>
   voice_loop active_window [said ''Goodbye'', said ''Hello''] =
     (active_window\<lparr>conversation_active := False,
         start_btn := microphone @ '' Start Conversation'',
         status_label := ''Ready''\<rparr>,
      [Add_message System (stop_sign @ '' Voice conversation stopped.'')], Returned)"
proof -
  have heard: "capture (said ''Goodbye'') = Inr ''Goodbye''"
    by (simp add: said_def)
  have word: "lower ''Goodbye'' \<in> set stop_words"
    by (simp add: stop_words_def string_defs)
  have active: "conversation_active active_window"
    by (simp add: active_window_def gui_app_start_conversation_def fixture_defs)
  from stop_word_ends_voice_loop [OF heard, where st = active_window
      and later = "[said ''Hello'']"] heard word active
  show ?thesis by simp
qed

text \<open>
  C1 as stated fails twice. In \<open>gui_app\<close> the utterance \<open>stop\<close> with a leading space is a
  stop word once stripped, yet the loop goes on and sends it to the model. In
  \<open>voice_assistant\<close> the utterance \<open>stop\<close> itself is sent to the model and the loop goes on.
\<close>

theorem stop_word_untrimmed_or_unchecked:
  "lower (strip '' stop'') \<in> set stop_words \<and>
   snd (snd (voice_loop_body active_window (said '' stop''))) = Next \<and>
   Generate_content '' stop''
     \<in> set (fst (snd (voice_loop_body active_window (said '' stop'')))) \<and>
   lower (strip ''stop'') \<in> set stop_words \<and>
   snd (listen_for_voice all_modules active_window (said ''stop'')) = Some True \<and>
   Generate_content ''stop''
     \<in> set (fst (listen_for_voice all_modules active_window (said ''stop'')))"
proof -
  have client: "has_gemini_client active_window"
    and input: "translation_code (input_language active_window) = ''en''"
    by (simp_all add: active_window_def gui_app_start_conversation_def fixture_defs)
  have trimmed: "lower (strip '' stop'') \<in> set stop_words"
    and plain: "lower (strip ''stop'') \<in> set stop_words"
    and untrimmed: "lower '' stop'' \<notin> set stop_words"
    by (simp_all add: stop_words_def string_defs)
  have gui: "voice_loop_body active_window (said '' stop'') =
      (active_window, Add_message User '' stop'' #
         fst (process_voice_message active_window echo_services '' stop''), Next)"
    using untrimmed by (simp add: voice_loop_body_def said_def)
  have sent: "Generate_content '' stop''
      \<in> set (fst (process_voice_message active_window echo_services '' stop''))"
    using client input by (simp add: stages in_stage)
  have va: "listen_for_voice all_modules active_window (said ''stop'') =
      (fst (voice_assistant_process_text_message all_modules active_window echo_services
              ''stop''), Some True)"
    by (simp add: listen_for_voice_def said_def string_defs)
  have sent': "Generate_content ''stop''
      \<in> set (fst (voice_assistant_process_text_message all_modules active_window echo_services
                    ''stop''))"
    using client input by (simp add: stages in_stage all_modules_def)
  from trimmed plain sent sent' show ?thesis
    by (simp add: gui va)
qed

text \<open>
  C5, as amended. Let the conversation be active and let every capture of \<open>hs\<close> be a
  timeout or a text that was not understood. Then neither loop has returned after \<open>hs\<close>,
  and the window is as it was. When the next capture raises any other exception,
  \<open>voice_conversation_loop\<close> of \<open>voice_assistant\<close> returns: it has reported that failure in one
  error message (the only error message of the run), \<open>conversation_active\<close> is false and the
  status reads \<open>Ready\<close>. \<open>voice_loop\<close> of \<open>gui_app\<close> reports the failure, pauses one second
  and keeps listening, with the window unchanged.
\<close>

theorem capture_failures_and_the_loops:
  assumes active: "conversation_active st"
    and quiet: "list_all (\<lambda>h. no_speech (capture h)) hs"
  shows
    "fst (voice_loop st hs) = st \<and>
     snd (snd (voice_loop st hs)) = Listening \<and>
     fst (voice_conversation_loop mods st hs) = st \<and>
     snd (snd (voice_conversation_loop mods st hs)) = Listening \<and>
     voice_conversation_loop mods st
         (hs @ \<lparr>capture = Inl (Exception m), answers = env\<rparr> # later) =
       (st\<lparr>conversation_active := False,
           start_btn := microphone @ '' Start Conversation'',
           status_label := microphone @ '' Ready''\<rparr>,
        fst (conversation_while mods st hs) @
          [Add_message Error (''Voice recognition error: '' @ m)],
        Returned) \<and>
     Add_message Error k \<notin> set (fst (conversation_while mods st hs)) \<and>
     voice_loop st (hs @ [\<lparr>capture = Inl (Exception m), answers = env\<rparr>]) =
       (st, fst (snd (voice_loop st hs)) @
              [Add_message Error (''Voice error: '' @ m), Sleep 1000],
        Listening)"
proof -
  let ?failure = "\<lparr>capture = Inl (Exception m), answers = env\<rparr>"
  have gui: "fst (voice_loop st hs) = st \<and> snd (snd (voice_loop st hs)) = Listening"
    using active quiet by (rule voice_loop_keeps_listening)
  have while: "snd (conversation_while mods st hs) = Listening"
    using active quiet by (rule conversation_while_keeps_listening)
  then have va: "fst (voice_conversation_loop mods st hs) = st \<and>
     snd (snd (voice_conversation_loop mods st hs)) = Listening"
    by (cases "conversation_while mods st hs") (simp add: voice_conversation_loop_def)
  have "conversation_while mods st (?failure # later) =
      ([Add_message Error (''Voice recognition error: '' @ m)], Returned)"
    using active by (simp add: listen_for_voice_def)
  with conversation_while_append [OF active quiet, of mods "?failure # later"]
  have "conversation_while mods st (hs @ ?failure # later) =
      (fst (conversation_while mods st hs) @
         [Add_message Error (''Voice recognition error: '' @ m)], Returned)"
    by simp
  then have ends: "voice_conversation_loop mods st (hs @ ?failure # later) =
       (st\<lparr>conversation_active := False,
           start_btn := microphone @ '' Start Conversation'',
           status_label := microphone @ '' Ready''\<rparr>,
        fst (conversation_while mods st hs) @
          [Add_message Error (''Voice recognition error: '' @ m)],
        Returned)"
    by (simp add: voice_conversation_loop_def)
  have once: "Add_message Error k \<notin> set (fst (conversation_while mods st hs))"
    using quiet by (rule conversation_while_no_error)
  have "voice_loop st [?failure] =
      (st, [Add_message Error (''Voice error: '' @ m), Sleep 1000], Listening)"
    using active by (simp add: voice_loop_body_def)
  with voice_loop_append [OF active quiet, of "[?failure]"]
  have goes_on: "voice_loop st (hs @ [?failure]) =
       (st, fst (snd (voice_loop st hs)) @
              [Add_message Error (''Voice error: '' @ m), Sleep 1000],
        Listening)"
    by simp
  from gui va ends once goes_on show ?thesis by simp
qed

theorem capture_failures_and_the_loops_witness:
  "conversation_active active_window \<and>
   list_all (\<lambda>h. no_speech (capture h)) [timed_out, unintelligible] \<and>
   voice_loop active_window [timed_out, unintelligible] =
     (active_window, [Add_message Error ''Could not understand audio''], Listening) \<and>
   voice_conversation_loop all_modules active_window
       [timed_out, unintelligible, no_microphone, said ''Hello''] =
     (active_window\<lparr>conversation_active := False,
         start_btn := microphone @ '' Start Conversation'',
         status_label := microphone @ '' Ready''\<rparr>,
      [Sleep 500, Add_message System ''Could not understand audio, please try again'',
       Sleep 500,
       Add_message Error ''Voice recognition error: No Default Input Device Available''],
      Returned)"
proof -
  have active: "conversation_active active_window"
    by (simp add: active_window_def gui_app_start_conversation_def fixture_defs)
  have quiet: "list_all (\<lambda>h. no_speech (capture h)) [timed_out, unintelligible]"
    by (simp add: no_speech_def timed_out_def unintelligible_def)
  have trace: "fst (conversation_while all_modules active_window [timed_out, unintelligible]) =
      [Sleep 500, Add_message System ''Could not understand audio, please try again'',
       Sleep 500]"
    using active by (simp add: listen_for_voice_def timed_out_def unintelligible_def)
  have gui: "fst (snd (voice_loop active_window [timed_out, unintelligible])) =
      [Add_message Error ''Could not understand audio'']"
    using active by (simp add: voice_loop_body_def timed_out_def unintelligible_def)
  from capture_failures_and_the_loops [OF active quiet, where mods = all_modules
      and m = "''No Default Input Device Available''" and env = echo_services
      and later = "[said ''Hello'']"]
    active quiet trace gui
  show ?thesis by (simp add: no_microphone_def prod_eq_iff)
qed

text \<open>
  C5 as stated fails for \<open>gui_app\<close>: a missing microphone does not end \<open>voice_loop\<close>; each
  pass reports it again, and the conversation stays active.
\<close>

theorem device_error_keeps_voice_loop_running:
  "conversation_active active_window \<and>
   voice_loop active_window [no_microphone, no_microphone] =
     (active_window,
      [Add_message Error ''Voice error: No Default Input Device Available'', Sleep 1000,
       Add_message Error ''Voice error: No Default Input Device Available'', Sleep 1000],
      Listening)"
proof -
  have active: "conversation_active active_window"
    by (simp add: active_window_def gui_app_start_conversation_def fixture_defs)
  then show ?thesis
    by (simp add: voice_loop_body_def no_microphone_def)
qed

section \<open>Selecting a language while a turn runs\<close>

text \<open>
  C9, as amended. A turn of \<open>process_text_message\<close> takes no copy of the languages: each
  stage reads the attribute when it runs. The inbound translation depends on the input code
  at the start of the turn; the outbound translation is decided by the output code as it is
  once the selections made during inference are applied, and its target is the code read
  just after; the speech is requested in the output code as it is after every selection made
  so far. A turn during which nothing is selected is the turn on the languages it started
  with. Each handler replaces one whole list and leaves the other language alone.
\<close>

theorem stages_read_the_languages_when_they_run:
  "process_text_message_interleaved str_title d st env message [] [] [] =
     (st, gui_app_process_text_message st env message) \<and>
   (Translate ''auto'' tgt x
      \<in> set (fst (snd (process_text_message_interleaved str_title d st env message
                         during_inference before_target during_translation))) \<longrightarrow>
      translation_code (input_language st) \<noteq> ''en'') \<and>
   (Translate ''en'' tgt x
      \<in> set (fst (snd (process_text_message_interleaved str_title d st env message
                         during_inference before_target during_translation))) \<longrightarrow>
      translation_code (output_language (foldl (select str_title d) st during_inference)) \<noteq> ''en'' \<and>
      tgt = translation_code
              (output_language (foldl (select str_title d) st (during_inference @ before_target)))) \<and>
   (GTTS t l
      \<in> set (fst (snd (process_text_message_interleaved str_title d st env message
                         during_inference before_target during_translation))) \<longrightarrow>
      l = translation_code
            (output_language
               (foldl (select str_title d) st
                  (during_inference @ before_target @ during_translation)))) \<and>
   input_language (update_output_language str_title d st) = input_language st \<and>
   output_language (update_input_language str_title d st) = output_language st \<and>
   (d (output_lang_var st) = Some (loc, code) \<longrightarrow>
      output_language (update_output_language str_title d st) =
        \<lparr>display_name = str_title (output_lang_var st), recognition_locale = loc,
         translation_code = code\<rparr>) \<and>
   (d (input_lang_var st) = Some (loc, code) \<longrightarrow>
      input_language (update_input_language str_title d st) =
        \<lparr>display_name = str_title (input_lang_var st), recognition_locale = loc,
         translation_code = code\<rparr>)"
proof -
  have quiet: "process_text_message_interleaved str_title d st env message [] [] [] =
     (st, gui_app_process_text_message st env message)"
    by (simp add: process_text_message_interleaved_def gui_app_process_text_message_def)
  have run: "snd (process_text_message_interleaved str_title d st env message
                    during_inference before_target during_translation) =
      gui_app_process_text_message_at st
        (foldl (select str_title d) st during_inference)
        (foldl (select str_title d) st (during_inference @ before_target))
        (foldl (select str_title d) st (during_inference @ before_target @ during_translation))
        env message"
    by (simp add: process_text_message_interleaved_def Let_def)
  have inbound: "Translate ''auto'' tgt x
      \<in> set (fst (snd (process_text_message_interleaved str_title d st env message
                         during_inference before_target during_translation))) \<longrightarrow>
      translation_code (input_language st) \<noteq> ''en''"
    unfolding run by (auto simp add: gui_app_stages in_stage)
  have outbound: "Translate ''en'' tgt x
      \<in> set (fst (snd (process_text_message_interleaved str_title d st env message
                         during_inference before_target during_translation))) \<longrightarrow>
      translation_code (output_language (foldl (select str_title d) st during_inference)) \<noteq> ''en'' \<and>
      tgt = translation_code
              (output_language (foldl (select str_title d) st (during_inference @ before_target)))"
    unfolding run by (auto simp add: gui_app_stages in_stage)
  have speech: "GTTS t l
      \<in> set (fst (snd (process_text_message_interleaved str_title d st env message
                         during_inference before_target during_translation))) \<longrightarrow>
      l = translation_code
            (output_language
               (foldl (select str_title d) st
                  (during_inference @ before_target @ during_translation)))"
    unfolding run by (auto simp add: gui_app_stages in_stage)
  have whole: "input_language (update_output_language str_title d st) = input_language st \<and>
   output_language (update_input_language str_title d st) = output_language st \<and>
   (d (output_lang_var st) = Some (loc, code) \<longrightarrow>
      output_language (update_output_language str_title d st) =
        \<lparr>display_name = str_title (output_lang_var st), recognition_locale = loc,
         translation_code = code\<rparr>) \<and>
   (d (input_lang_var st) = Some (loc, code) \<longrightarrow>
      input_language (update_input_language str_title d st) =
        \<lparr>display_name = str_title (input_lang_var st), recognition_locale = loc,
         translation_code = code\<rparr>)"
    by (simp add: update_input_language_def update_output_language_def Let_def
        split: option.splits prod.splits)
  from quiet inbound outbound speech whole show ?thesis by simp
qed

lemma french: "fallback_languages_dict ''french'' = Some (''fr-FR'', ''fr'')"
  by (simp add: fallback_languages_dict_def)

lemma german: "fallback_languages_dict ''german'' = Some (''de-DE'', ''de'')"
  by (simp add: fallback_languages_dict_def)

lemma spanish: "fallback_languages_dict ''spanish'' = Some (''es-ES'', ''es'')"
  by (simp add: fallback_languages_dict_def)

lemmas turn_eval = gui_app_process_text_message_def gui_app_process_text_message_at_def
  gemini_client_def chat_with_gemini_cases text_to_speech_cases run_defs fixture_defs string_defs

text \<open>
  C9 as stated fails: a turn that starts with English for both directions, during which
  Spanish and French are selected while the model answers, skips the inbound translation
  (the old input) and translates and speaks the reply in French (the new output); and a
  selection made while the reply is translated to French has it spoken with the code of
  German.
\<close>

theorem update_in_flight_is_seen_by_later_stages:
  "gui_app_process_text_message ready_window echo_services ''Hello'' =
     ([Add_message User ''Hello'', Generate_content ''Hello'',
       Add_message Assistant ''You said Hello'', GTTS ''You said Hello'' ''en'',
       Play_audio ''/tmp/tmpa1b2c3.mp3'' None], Inr ()) \<and>
   snd (process_text_message_interleaved title fallback_languages_dict ready_window echo_services
          ''Hello'' [Select_input ''spanish'', Select_output ''french''] [] []) =
     ([Add_message User ''Hello'', Generate_content ''Hello'',
       Translate ''en'' ''fr'' ''You said Hello'',
       Add_message Assistant ''fr: You said Hello'', GTTS ''fr: You said Hello'' ''fr'',
       Play_audio ''/tmp/tmpa1b2c3.mp3'' None], Inr ()) \<and>
   snd (process_text_message_interleaved title fallback_languages_dict
          (select title fallback_languages_dict ready_window (Select_output ''french''))
          echo_services ''Hello'' [] [] [Select_output ''german'']) =
     ([Add_message User ''Hello'', Generate_content ''Hello'',
       Translate ''en'' ''fr'' ''You said Hello'',
       Add_message Assistant ''fr: You said Hello'', GTTS ''fr: You said Hello'' ''de'',
       Play_audio ''/tmp/tmpa1b2c3.mp3'' None], Inr ())"
  by (simp add: process_text_message_interleaved_def Let_def update_input_language_def
      update_output_language_def french german spanish turn_eval)

theorem stages_read_the_languages_when_they_run_witness:
  "Translate ''en'' ''fr'' ''You said Hello''
     \<in> set (fst (snd (process_text_message_interleaved title fallback_languages_dict ready_window
                        echo_services ''Hello'' [Select_output ''french''] [] []))) \<and>
   translation_code (output_language ready_window) = ''en'' \<and>
   translation_code
     (output_language
        (foldl (select title fallback_languages_dict) ready_window [Select_output ''french''])) =
     ''fr'' \<and>
   fallback_languages_dict (output_lang_var (ready_window\<lparr>output_lang_var := ''french''\<rparr>)) =
     Some (''fr-FR'', ''fr'') \<and>
   output_language
     (update_output_language title fallback_languages_dict
        (ready_window\<lparr>output_lang_var := ''french''\<rparr>)) =
     \<lparr>display_name = ''French'', recognition_locale = ''fr-FR'', translation_code = ''fr''\<rparr>"
proof -
  have requested: "Translate ''en'' ''fr'' ''You said Hello''
     \<in> set (fst (snd (process_text_message_interleaved title fallback_languages_dict ready_window
                        echo_services ''Hello'' [Select_output ''french''] [] [])))"
  proof -
    have "snd (process_text_message_interleaved title fallback_languages_dict ready_window
                 echo_services ''Hello'' [Select_output ''french''] [] []) =
      ([Add_message User ''Hello'', Generate_content ''Hello'',
        Translate ''en'' ''fr'' ''You said Hello'',
        Add_message Assistant ''fr: You said Hello'', GTTS ''fr: You said Hello'' ''fr'',
        Play_audio ''/tmp/tmpa1b2c3.mp3'' None], Inr ())"
      by (simp add: process_text_message_interleaved_def Let_def update_output_language_def
          french turn_eval)
    then show ?thesis by simp
  qed
  have before: "translation_code (output_language ready_window) = ''en''"
    by (simp add: fixture_defs)
  have entry:
    "fallback_languages_dict (output_lang_var (ready_window\<lparr>output_lang_var := ''french''\<rparr>)) =
       Some (''fr-FR'', ''fr'')"
    by (simp add: french)
  have name: "title ''french'' = ''French''"
    by (simp add: title_def is_cased_def upper_char_def string_defs)
  from stages_read_the_languages_when_they_run
         [where str_title = title and d = fallback_languages_dict and st = ready_window and env = echo_services
            and message = "''Hello''" and during_inference = "[Select_output ''french'']"
            and before_target = "[]" and during_translation = "[]" and tgt = "''fr''"
            and x = "''You said Hello''"]
       stages_read_the_languages_when_they_run
         [where str_title = title and d = fallback_languages_dict
            and st = "ready_window\<lparr>output_lang_var := ''french''\<rparr>"
            and loc = "''fr-FR''" and code = "''fr''"]
       requested before entry name
  show ?thesis by simp
qed

end
